theory Spec2Isabelle
  imports Main "HOL-Library.Sublist"
begin

section \<open>Exceptions and objects\<close>

text \<open>
  The module \<^verbatim>\<open>mesonbuild/compilers/mixins/islinker.py\<close> raises two exception
  classes of \<^verbatim>\<open>mesonlib\<close>, each built from one message string, and lets the
  \<^verbatim>\<open>ValueError\<close> of \<^verbatim>\<open>shlex.split\<close> pass through. A raise is the left
  summand of the result.
\<close>

datatype py_error =
    MesonException string
  | EnvironmentException string
  | ValueError string

text \<open>
  Python lists are mutable objects reached through references. The store holds every
  list object; an address is an index into it, and a new object is put at the end.
\<close>

type_synonym addr = nat
type_synonym store = "string list list"

text \<open>\<^verbatim>\<open>list.copy()\<close>: a new list object with the same elements.\<close>

definition list_copy :: "store \<Rightarrow> addr \<Rightarrow> store \<times> addr" where
  "list_copy h a = (h @ [h ! a], length h)"

text \<open>
  Any in-place change of one list object (\<^verbatim>\<open>append\<close>, \<^verbatim>\<open>xs[i] = v\<close>,
  \<^verbatim>\<open>clear\<close>, ...) replaces the elements held at its address.
\<close>

definition list_mutate :: "store \<Rightarrow> addr \<Rightarrow> (string list \<Rightarrow> string list) \<Rightarrow> store" where
  "list_mutate h a f = h[a := f (h ! a)]"

text \<open>
  The attributes of \<^verbatim>\<open>self\<close> that the mixin reads: \<^verbatim>\<open>self.exelist\<close>, a reference
  to a list of strings, and \<^verbatim>\<open>self.id\<close>, a string.
\<close>

record compiler =
  exelist :: addr
  id_str :: string

section \<open>The lexer of \<^verbatim>\<open>shlex.split\<close>\<close>

text \<open>
  \<^verbatim>\<open>shlex.split(s)\<close> of the Python standard library builds
  \<^verbatim>\<open>shlex(s, posix=True)\<close>, sets \<^verbatim>\<open>whitespace_split = True\<close> and
  \<^verbatim>\<open>commenters = ''\<close>, and returns \<^verbatim>\<open>list(lex)\<close>. The definitions below follow
  \<^verbatim>\<open>shlex.read_token\<close> under these settings (\<^verbatim>\<open>punctuation_chars\<close> is empty, no
  pushback, no source inclusion, no debugging output). A character is a code point below 256.
\<close>

definition whitespace :: string where
  "whitespace = [CHR '' '', CHR 0x09, CHR 0x0D, CHR 0x0A]"

definition quotes :: string where
  "quotes = [CHR 0x27, CHR 0x22]"

definition escape :: string where
  "escape = [CHR 0x5C]"

definition escapedquotes :: string where
  "escapedquotes = [CHR 0x22]"

definition wordchars :: string where
  "wordchars =
     ''abcdfeghijklmnopqrstuvwxyzABCDEFGHIJKLMNOPQRSTUVWXYZ0123456789_'' @
     map char_of ([0xDF ..< 0xF7] @ [0xF8 ..< 0x100] @ [0xC0 ..< 0xD7] @ [0xD8 ..< 0xDF] :: nat list)"

text \<open>
  \<^verbatim>\<open>self.state\<close> is \<^verbatim>\<open>None\<close> past the end of the input, \<^verbatim>\<open>' '\<close> between
  tokens, \<^verbatim>\<open>'a'\<close> inside a word, the opening quote inside a quoted part and the escape
  character after a backslash. \<^verbatim>\<open>escapedstate\<close> holds one of these to return to.
\<close>

datatype lex_state = Past_eof | In_space | In_word | In_quote char | In_escape char

text \<open>
  The loop of \<^verbatim>\<open>read_token\<close>: one character of \<^verbatim>\<open>instream\<close> per round, the
  empty input being \<^verbatim>\<open>read(1) == ''\<close>. The arguments are the rest of the stream,
  \<^verbatim>\<open>self.state\<close>, \<^verbatim>\<open>self.token\<close>, \<^verbatim>\<open>quoted\<close> and \<^verbatim>\<open>escapedstate\<close>; a
  \<^verbatim>\<open>break\<close> returns the rest of the stream, the state, the token and \<^verbatim>\<open>quoted\<close>.
\<close>

fun read_token_loop ::
  "string \<Rightarrow> lex_state \<Rightarrow> string \<Rightarrow> bool \<Rightarrow> lex_state \<Rightarrow> py_error + (string \<times> lex_state \<times> string \<times> bool)"
where
  "read_token_loop [] Past_eof tok quoted esc = Inr ([], Past_eof, [], quoted)"
| "read_token_loop [] In_space tok quoted esc = Inr ([], Past_eof, tok, quoted)"
| "read_token_loop [] (In_quote q) tok quoted esc = Inl (ValueError ''No closing quotation'')"
| "read_token_loop [] (In_escape e) tok quoted esc = Inl (ValueError ''No escaped character'')"
| "read_token_loop [] In_word tok quoted esc = Inr ([], Past_eof, tok, quoted)"
| "read_token_loop (c # cs) Past_eof tok quoted esc = Inr (cs, Past_eof, [], quoted)"
| "read_token_loop (c # cs) In_space tok quoted esc =
     (if c \<in> set whitespace then
        (if tok \<noteq> [] \<or> quoted then Inr (cs, In_space, tok, quoted)
         else read_token_loop cs In_space tok quoted esc)
      else if c \<in> set escape then read_token_loop cs (In_escape c) tok quoted In_word
      else if c \<in> set wordchars then read_token_loop cs In_word [c] quoted esc
      else if c \<in> set quotes then read_token_loop cs (In_quote c) tok quoted esc
      else read_token_loop cs In_word [c] quoted esc)"
| "read_token_loop (c # cs) (In_quote q) tok quoted esc =
     (if c = q then read_token_loop cs In_word tok True esc
      else if c \<in> set escape \<and> q \<in> set escapedquotes
        then read_token_loop cs (In_escape c) tok True (In_quote q)
      else read_token_loop cs (In_quote q) (tok @ [c]) True esc)"
| "read_token_loop (c # cs) (In_escape e) tok quoted esc =
     read_token_loop cs esc
       ((if (case esc of In_quote q \<Rightarrow> q \<in> set quotes \<and> c \<noteq> e \<and> c \<noteq> q | _ \<Rightarrow> False)
         then tok @ [e] else tok) @ [c])
       quoted esc"
| "read_token_loop (c # cs) In_word tok quoted esc =
     (if c \<in> set whitespace then
        (if tok \<noteq> [] \<or> quoted then Inr (cs, In_space, tok, quoted)
         else read_token_loop cs In_space tok quoted esc)
      else if c \<in> set quotes then read_token_loop cs (In_quote c) tok quoted esc
      else if c \<in> set escape then read_token_loop cs (In_escape c) tok quoted In_word
      else read_token_loop cs In_word (tok @ [c]) quoted esc)"

text \<open>The lexer object: the unread input, \<^verbatim>\<open>self.state\<close> and \<^verbatim>\<open>self.token\<close>.\<close>

record shlex =
  instream :: string
  state :: lex_state
  token :: string

text \<open>
  \<^verbatim>\<open>read_token\<close>: run the loop with \<^verbatim>\<open>quoted = False\<close> and
  \<^verbatim>\<open>escapedstate = ' '\<close>, reset \<^verbatim>\<open>self.token\<close>, and return \<^verbatim>\<open>None\<close> for an
  empty token that was not quoted.
\<close>

definition read_token :: "shlex \<Rightarrow> py_error + (string option \<times> shlex)" where
  "read_token lx =
     (case read_token_loop (instream lx) (state lx) (token lx) False In_space of
        Inl e \<Rightarrow> Inl e
      | Inr (rest, st, tok, quoted) \<Rightarrow>
          Inr (if \<not> quoted \<and> tok = [] then None else Some tok,
               \<lparr>instream = rest, state = st, token = []\<rparr>))"

text \<open>
  \<^verbatim>\<open>list(lex)\<close>: \<^verbatim>\<open>__next__\<close> returns \<^verbatim>\<open>get_token()\<close>, which here is
  \<^verbatim>\<open>read_token()\<close>, until the token is \<^verbatim>\<open>self.eof\<close>, that is \<^verbatim>\<open>None\<close>.
\<close>

function lex_tokens :: "shlex \<Rightarrow> py_error + string list" where
  "lex_tokens lx =
     (case read_token lx of
        Inl e \<Rightarrow> Inl e
      | Inr (None, lx') \<Rightarrow> Inr []
      | Inr (Some t, lx') \<Rightarrow>
          (case lex_tokens lx' of Inl e \<Rightarrow> Inl e | Inr ts \<Rightarrow> Inr (t # ts)))"
  by pat_completeness auto

lemma read_token_loop_consumes:
  "st \<noteq> Past_eof \<Longrightarrow> read_token_loop cs st tok quoted esc = Inr (rest, st', tok', quoted') \<Longrightarrow>
   length rest + (if st' = Past_eof then 0 else 1) \<le> length cs"
proof (induction cs st tok quoted esc rule: read_token_loop.induct)
  case (9 c cs e tok quoted esc)
  show ?case
  proof (cases "esc = Past_eof")
    case True
    with 9(3) show ?thesis by (cases cs) auto
  next
    case False
    with 9 show ?thesis by fastforce
  qed
qed (auto split: if_splits)

termination lex_tokens
proof (relation "measure (\<lambda>lx. length (instream lx) + (if state lx = Past_eof then 0 else 1))")
  show "wf (measure (\<lambda>lx. length (instream lx) + (if state lx = Past_eof then 0 else 1)))"
    by simp
next
  fix lx :: shlex and x2 x1 lx' t
  assume rt: "read_token lx = Inr x2" and x2: "(x1, lx') = x2" and x1: "x1 = Some t"
  from rt x2 x1 obtain rest st tok quoted where
    loop: "read_token_loop (instream lx) (state lx) (token lx) False In_space
             = Inr (rest, st, tok, quoted)"
    and lx': "lx' = \<lparr>instream = rest, state = st, token = []\<rparr>"
    and some: "\<not> (\<not> quoted \<and> tok = [])"
    by (auto simp: read_token_def split: sum.splits prod.splits if_splits)
  have ne: "state lx \<noteq> Past_eof"
  proof
    assume "state lx = Past_eof"
    with loop some show False by (cases "instream lx") auto
  qed
  from read_token_loop_consumes [OF ne loop] ne lx'
  show "(lx', lx) \<in> measure (\<lambda>lx. length (instream lx) + (if state lx = Past_eof then 0 else 1))"
    by simp
qed

declare lex_tokens.simps [simp del]

text \<open>\<^verbatim>\<open>shlex.split(s)\<close> for a string \<^verbatim>\<open>s\<close>.\<close>

definition shlex_split :: "string \<Rightarrow> py_error + string list" where
  "shlex_split s = lex_tokens \<lparr>instream = s, state = In_space, token = []\<rparr>"

section \<open>\<^verbatim>\<open>LinkerEnvVarsMixin\<close>\<close>

text \<open>
  \<^verbatim>\<open>os.environ\<close> is a map from names to strings. \<^verbatim>\<open>get_linker_args_from_envvars\<close>
  returns \<^verbatim>\<open>[]\<close> when \<^verbatim>\<open>os.environ.get('LDFLAGS')\<close> is \<^verbatim>\<open>None\<close> or the empty
  string (\<^verbatim>\<open>not flags\<close>), and \<^verbatim>\<open>shlex.split(flags)\<close> otherwise.
\<close>

definition get_linker_args_from_envvars ::
  "'self \<Rightarrow> (string \<rightharpoonup> string) \<Rightarrow> py_error + string list" where
  "get_linker_args_from_envvars self environ =
     (case environ ''LDFLAGS'' of
        None \<Rightarrow> Inr []
      | Some flags \<Rightarrow> if flags = [] then Inr [] else shlex_split flags)"

section \<open>\<^verbatim>\<open>BasicLinkerIsCompilerMixin\<close>\<close>

text \<open>
  One definition per method, in the order of the class. The option dictionary, the
  \<^verbatim>\<open>Environment\<close> and the \<^verbatim>\<open>MachineChoice\<close> are declared outside this module and
  stay type parameters.
\<close>

definition sanitizer_link_args :: "compiler \<Rightarrow> string \<Rightarrow> py_error + string list" where
  "sanitizer_link_args self val = Inr []"

definition get_lto_link_args :: "compiler \<Rightarrow> py_error + string list" where
  "get_lto_link_args self = Inr []"

text \<open>
  \<^verbatim>\<open>mesonlib.is_windows()\<close> is defined outside this module: it is a parameter here,
  a test on the host platform that the process runs on.
\<close>

definition can_linker_accept_rsp :: "('host \<Rightarrow> bool) \<Rightarrow> 'host \<Rightarrow> compiler \<Rightarrow> py_error + bool" where
  "can_linker_accept_rsp is_windows host self = Inr (is_windows host)"

text \<open>\<^verbatim>\<open>return self.exelist.copy()\<close>: the reference to a new list object, and the new store.\<close>

definition get_linker_exelist :: "compiler \<Rightarrow> store \<Rightarrow> (py_error + addr) \<times> store" where
  "get_linker_exelist self h = (case list_copy h (exelist self) of (h', a) \<Rightarrow> (Inr a, h'))"

definition get_linker_output_args :: "compiler \<Rightarrow> string \<Rightarrow> py_error + string list" where
  "get_linker_output_args self output = Inr []"

definition get_linker_always_args :: "compiler \<Rightarrow> py_error + string list" where
  "get_linker_always_args self = Inr []"

definition get_linker_lib_prefix :: "compiler \<Rightarrow> py_error + string" where
  "get_linker_lib_prefix self = Inr []"

definition get_option_link_args :: "compiler \<Rightarrow> 'opts \<Rightarrow> py_error + string list" where
  "get_option_link_args self options = Inr []"

definition has_multi_link_args ::
  "compiler \<Rightarrow> string list \<Rightarrow> 'env \<Rightarrow> py_error + (bool \<times> bool)" where
  "has_multi_link_args self args env = Inr (False, False)"

definition get_link_debugfile_args :: "compiler \<Rightarrow> string \<Rightarrow> py_error + string list" where
  "get_link_debugfile_args self targetfile = Inr []"

definition get_std_shared_lib_link_args :: "compiler \<Rightarrow> py_error + string list" where
  "get_std_shared_lib_link_args self = Inr []"

text \<open>
  \<^verbatim>\<open>return self.get_std_shared_lib_link_args()\<close> is a call through \<^verbatim>\<open>self\<close>: it
  reaches whatever definition of the method the object has. The body takes that method
  as its first argument; on the class as it stands it is the definition above.
\<close>

definition get_std_shared_module_args_body ::
  "(compiler \<Rightarrow> py_error + string list) \<Rightarrow> compiler \<Rightarrow> 'opts \<Rightarrow> py_error + string list" where
  "get_std_shared_module_args_body self_get_std_shared_lib_link_args self options =
     self_get_std_shared_lib_link_args self"

definition get_std_shared_module_args :: "compiler \<Rightarrow> 'opts \<Rightarrow> py_error + string list" where
  "get_std_shared_module_args =
     get_std_shared_module_args_body get_std_shared_lib_link_args"

text \<open>\<^verbatim>\<open>'... {} ...'.format(self.id)\<close> puts the string \<^verbatim>\<open>self.id\<close> in place of the braces.\<close>

definition get_link_whole_for :: "compiler \<Rightarrow> string list \<Rightarrow> py_error + string list" where
  "get_link_whole_for self args =
     Inl (EnvironmentException (''Linker '' @ id_str self @ '' does not support link_whole''))"

definition get_allow_undefined_args :: "compiler \<Rightarrow> py_error + string list" where
  "get_allow_undefined_args self =
     Inl (EnvironmentException (''Linker '' @ id_str self @ '' does not support allow undefined''))"

definition get_pie_link_args :: "compiler \<Rightarrow> py_error + string list" where
  "get_pie_link_args self =
     Inl (EnvironmentException
            (''Linker '' @ id_str self @ '' does not support position-independent executable''))"

definition get_undefined_link_args :: "compiler \<Rightarrow> py_error + string list" where
  "get_undefined_link_args self = Inr []"

definition get_coverage_link_args :: "compiler \<Rightarrow> py_error + string list" where
  "get_coverage_link_args self =
     Inl (EnvironmentException
            (''Linker '' @ id_str self @ '' doesn't implement coverage data generation.''))"

definition no_undefined_link_args :: "compiler \<Rightarrow> py_error + string list" where
  "no_undefined_link_args self = Inr []"

definition bitcode_args :: "compiler \<Rightarrow> py_error + string list" where
  "bitcode_args self =
     Inl (MesonException (''This linker doesn't support bitcode bundles''))"

definition get_soname_args ::
  "compiler \<Rightarrow> 'mach \<Rightarrow> string \<Rightarrow> string \<Rightarrow> string \<Rightarrow> string \<Rightarrow> string \<times> string \<Rightarrow> bool
     \<Rightarrow> py_error + string list" where
  "get_soname_args self for_machine prefix_str shlib_name suffix_str soversion darwin_versions
       is_shared_module =
     Inl (MesonException (''This linker doesn't support soname args''))"

definition build_rpath_args ::
  "compiler \<Rightarrow> 'env \<Rightarrow> string \<Rightarrow> string \<Rightarrow> string \<Rightarrow> string \<Rightarrow> string \<Rightarrow> py_error + string list" where
  "build_rpath_args self env build_dir from_dir rpath_paths build_rpath install_rpath = Inr []"

section \<open>Calling the methods in sequence\<close>

text \<open>
  What the methods can read or change outside their arguments: the process environment,
  the store of list objects and the host platform.
\<close>

record 'host world =
  os_environ :: "string \<rightharpoonup> string"
  heap :: store
  host_platform :: 'host

text \<open>A method of an object that composes both mixins, with its arguments.\<close>

datatype ('opts, 'env, 'mach) query =
    Call_get_linker_args_from_envvars
  | Call_sanitizer_link_args string
  | Call_get_lto_link_args
  | Call_can_linker_accept_rsp
  | Call_get_linker_exelist
  | Call_get_linker_output_args string
  | Call_get_linker_always_args
  | Call_get_linker_lib_prefix
  | Call_get_option_link_args 'opts
  | Call_has_multi_link_args "string list" 'env
  | Call_get_link_debugfile_args string
  | Call_get_std_shared_lib_link_args
  | Call_get_std_shared_module_args 'opts
  | Call_get_link_whole_for "string list"
  | Call_get_allow_undefined_args
  | Call_get_pie_link_args
  | Call_get_undefined_link_args
  | Call_get_coverage_link_args
  | Call_no_undefined_link_args
  | Call_bitcode_args
  | Call_get_soname_args 'mach string string string string "string \<times> string" bool
  | Call_build_rpath_args 'env string string string string string

text \<open>A returned value; a returned list is given by its elements.\<close>

datatype py_value =
    Str_list "string list"
  | Str string
  | Boolean bool
  | Bool_pair "bool \<times> bool"

text \<open>One call: the outcome and the world after it.\<close>

fun call ::
  "('host \<Rightarrow> bool) \<Rightarrow> compiler \<Rightarrow> ('opts, 'env, 'mach) query \<Rightarrow> 'host world
     \<Rightarrow> (py_error + py_value) \<times> 'host world"
where
  "call isw self Call_get_linker_args_from_envvars w =
     (map_sum (\<lambda>e. e) Str_list (get_linker_args_from_envvars self (os_environ w)), w)"
| "call isw self (Call_sanitizer_link_args val) w =
     (map_sum (\<lambda>e. e) Str_list (sanitizer_link_args self val), w)"
| "call isw self Call_get_lto_link_args w =
     (map_sum (\<lambda>e. e) Str_list (get_lto_link_args self), w)"
| "call isw self Call_can_linker_accept_rsp w =
     (map_sum (\<lambda>e. e) Boolean (can_linker_accept_rsp isw (host_platform w) self), w)"
| "call isw self Call_get_linker_exelist w =
     (case get_linker_exelist self (heap w) of
        (r, h') \<Rightarrow> (map_sum (\<lambda>e. e) (\<lambda>a. Str_list (h' ! a)) r, w\<lparr>heap := h'\<rparr>))"
| "call isw self (Call_get_linker_output_args output) w =
     (map_sum (\<lambda>e. e) Str_list (get_linker_output_args self output), w)"
| "call isw self Call_get_linker_always_args w =
     (map_sum (\<lambda>e. e) Str_list (get_linker_always_args self), w)"
| "call isw self Call_get_linker_lib_prefix w =
     (map_sum (\<lambda>e. e) Str (get_linker_lib_prefix self), w)"
| "call isw self (Call_get_option_link_args options) w =
     (map_sum (\<lambda>e. e) Str_list (get_option_link_args self options), w)"
| "call isw self (Call_has_multi_link_args args env) w =
     (map_sum (\<lambda>e. e) Bool_pair (has_multi_link_args self args env), w)"
| "call isw self (Call_get_link_debugfile_args targetfile) w =
     (map_sum (\<lambda>e. e) Str_list (get_link_debugfile_args self targetfile), w)"
| "call isw self Call_get_std_shared_lib_link_args w =
     (map_sum (\<lambda>e. e) Str_list (get_std_shared_lib_link_args self), w)"
| "call isw self (Call_get_std_shared_module_args options) w =
     (map_sum (\<lambda>e. e) Str_list (get_std_shared_module_args self options), w)"
| "call isw self (Call_get_link_whole_for args) w =
     (map_sum (\<lambda>e. e) Str_list (get_link_whole_for self args), w)"
| "call isw self Call_get_allow_undefined_args w =
     (map_sum (\<lambda>e. e) Str_list (get_allow_undefined_args self), w)"
| "call isw self Call_get_pie_link_args w =
     (map_sum (\<lambda>e. e) Str_list (get_pie_link_args self), w)"
| "call isw self Call_get_undefined_link_args w =
     (map_sum (\<lambda>e. e) Str_list (get_undefined_link_args self), w)"
| "call isw self Call_get_coverage_link_args w =
     (map_sum (\<lambda>e. e) Str_list (get_coverage_link_args self), w)"
| "call isw self Call_no_undefined_link_args w =
     (map_sum (\<lambda>e. e) Str_list (no_undefined_link_args self), w)"
| "call isw self Call_bitcode_args w =
     (map_sum (\<lambda>e. e) Str_list (bitcode_args self), w)"
| "call isw self
       (Call_get_soname_args for_machine prefix_str shlib_name suffix_str soversion
          darwin_versions is_shared_module) w =
     (map_sum (\<lambda>e. e) Str_list
        (get_soname_args self for_machine prefix_str shlib_name suffix_str soversion
           darwin_versions is_shared_module), w)"
| "call isw self
       (Call_build_rpath_args env build_dir from_dir rpath_paths build_rpath install_rpath) w =
     (map_sum (\<lambda>e. e) Str_list
        (build_rpath_args self env build_dir from_dir rpath_paths build_rpath install_rpath), w)"

section \<open>Notions of the specification\<close>

text \<open>
  A call reports an unsupported feature when it raises one of the two exceptions of
  \<^verbatim>\<open>mesonlib\<close> and the message contains each of the given strings.
\<close>

definition unsupported :: "py_error + 'a \<Rightarrow> string list \<Rightarrow> bool" where
  "unsupported r parts =
     (case r of
        Inl (MesonException m) \<Rightarrow> list_all (\<lambda>p. sublist p m) parts
      | Inl (EnvironmentException m) \<Rightarrow> list_all (\<lambda>p. sublist p m) parts
      | Inl (ValueError m) \<Rightarrow> False
      | Inr v \<Rightarrow> False)"

text \<open>
  An exception that \<^verbatim>\<open>mesonlib\<close> declares: the errors that the module itself raises
  for the user to read. \<^verbatim>\<open>ValueError\<close> is built into Python and is none of them.
\<close>

definition meson_exception :: "py_error + 'a \<Rightarrow> bool" where
  "meson_exception r =
     (case r of
        Inl (MesonException m) \<Rightarrow> True
      | Inl (EnvironmentException m) \<Rightarrow> True
      | Inl (ValueError m) \<Rightarrow> False
      | Inr v \<Rightarrow> False)"

text \<open>
  Quoting of the POSIX shell, read off a string from left to right: outside quotes, inside
  single quotes (closed by the next single quote), inside double quotes (closed by the
  next double quote that no backslash precedes), and right after a backslash, outside
  quotes or inside double quotes. A string is malformed when it ends anywhere but outside
  quotes: a quote is not closed, or nothing follows a backslash.
\<close>

datatype quoting = Unquoted | Single_quoted | Double_quoted | Escaped | Escaped_in_double

fun quoting_step :: "quoting \<Rightarrow> char \<Rightarrow> quoting" where
  "quoting_step Unquoted c =
     (if c = CHR 0x5C then Escaped
      else if c = CHR 0x27 then Single_quoted
      else if c = CHR 0x22 then Double_quoted
      else Unquoted)"
| "quoting_step Single_quoted c = (if c = CHR 0x27 then Unquoted else Single_quoted)"
| "quoting_step Double_quoted c =
     (if c = CHR 0x22 then Unquoted
      else if c = CHR 0x5C then Escaped_in_double
      else Double_quoted)"
| "quoting_step Escaped c = Unquoted"
| "quoting_step Escaped_in_double c = Double_quoted"

definition malformed :: "string \<Rightarrow> bool" where
  "malformed s = (foldl quoting_step Unquoted s \<noteq> Unquoted)"

text \<open>
  The quoting that a state of the lexer stands for, the states that the lexer can be in
  while it reads, and the exception that \<^verbatim>\<open>read_token\<close> raises at the end of an input
  that ends inside the given quoting.
\<close>

definition quoting_of :: "lex_state \<Rightarrow> lex_state \<Rightarrow> quoting" where
  "quoting_of st esc =
     (case st of
        In_quote q \<Rightarrow> if q = CHR 0x22 then Double_quoted else Single_quoted
      | In_escape e \<Rightarrow> (case esc of In_quote q \<Rightarrow> Escaped_in_double | _ \<Rightarrow> Escaped)
      | _ \<Rightarrow> Unquoted)"

definition reachable :: "lex_state \<Rightarrow> lex_state \<Rightarrow> bool" where
  "reachable st esc =
     (case st of
        Past_eof \<Rightarrow> False
      | In_quote q \<Rightarrow> q \<in> set quotes
      | In_escape e \<Rightarrow>
          (case esc of In_quote q \<Rightarrow> q = CHR 0x22 | In_space \<Rightarrow> True | In_word \<Rightarrow> True | _ \<Rightarrow> False)
      | _ \<Rightarrow> True)"

definition parse_error :: "quoting \<Rightarrow> py_error" where
  "parse_error m =
     ValueError (if m = Single_quoted \<or> m = Double_quoted then ''No closing quotation''
                 else ''No escaped character'')"

text \<open>
  The outcome of the loop of \<^verbatim>\<open>read_token\<close> agrees with the quoting \<open>m\<close> that the
  whole unread input ends in: an exception only when \<open>m\<close> is not \<open>Unquoted\<close>, and a
  token only together with a rest that ends in \<open>m\<close> again.
\<close>

definition agrees :: "quoting \<Rightarrow> py_error + (string \<times> lex_state \<times> string \<times> bool) \<Rightarrow> bool" where
  "agrees m r =
     (case r of
        Inl e \<Rightarrow> m \<noteq> Unquoted \<and> e = parse_error m
      | Inr (rest, st', tok', quoted') \<Rightarrow>
          (st' = In_space \<and> (tok' \<noteq> [] \<or> quoted') \<or> st' = Past_eof \<and> rest = [])
          \<and> m = foldl quoting_step Unquoted rest)"
















section \<open>Helper facts\<close>

lemma sublist_after: "sublist f s \<Longrightarrow> sublist f (p @ i @ s)"
  by (auto simp: sublist_def) (metis append.assoc)

lemma format_unsupported:
  "sublist f s \<Longrightarrow> unsupported (Inl (EnvironmentException (p @ i @ s))) [i, f]"
  unfolding unsupported_def by (simp add: sublist_after)

lemma wordchars_plain: "c \<in> set wordchars \<Longrightarrow> c \<noteq> CHR 0x27 \<and> c \<noteq> CHR 0x22"
proof -
  have "CHR 0x27 \<notin> set wordchars" by code_simp
  moreover have "CHR 0x22 \<notin> set wordchars" by code_simp
  ultimately show "c \<in> set wordchars \<Longrightarrow> c \<noteq> CHR 0x27 \<and> c \<noteq> CHR 0x22" by blast
qed

lemma whitespace_plain:
  "c \<in> set whitespace \<Longrightarrow> c \<noteq> CHR 0x27 \<and> c \<noteq> CHR 0x22 \<and> c \<noteq> CHR 0x5C"
  by (auto simp: whitespace_def)

lemma in_escape: "c \<in> set escape \<longleftrightarrow> c = CHR 0x5C"
  by (simp add: escape_def)

lemma in_quotes: "c \<in> set quotes \<longleftrightarrow> c = CHR 0x27 \<or> c = CHR 0x22"
  by (simp add: quotes_def)

lemma in_escapedquotes: "c \<in> set escapedquotes \<longleftrightarrow> c = CHR 0x22"
  by (simp add: escapedquotes_def)

lemma agrees_return:
  "foldl quoting_step Unquoted cs = m \<Longrightarrow> tok \<noteq> [] \<or> quoted \<Longrightarrow> agrees m (Inr (cs, In_space, tok, quoted))"
  by (simp add: agrees_def)

lemma loop_quoting:
  "reachable st esc \<Longrightarrow>
   agrees (foldl quoting_step (quoting_of st esc) cs) (read_token_loop cs st tok quoted esc)"
proof (induction cs st tok quoted esc rule: read_token_loop.induct)
  case (7 c cs tok quoted esc)
  have q: "quoting_of In_space esc = Unquoted" by (simp add: quoting_of_def)
  show ?case
  proof (cases "c \<in> set whitespace")
    case True
    with whitespace_plain [OF True] 7(1) show ?thesis
      by (simp add: q agrees_return reachable_def quoting_of_def)
  next
    case ws: False
    show ?thesis
    proof (cases "c \<in> set escape")
      case True
      with ws 7(2) show ?thesis
        by (simp add: q in_escape reachable_def quoting_of_def)
    next
      case esc: False
      show ?thesis
      proof (cases "c \<in> set wordchars")
        case True
        with ws esc wordchars_plain [OF True] 7(3) show ?thesis
          by (simp add: q in_escape reachable_def quoting_of_def)
      next
        case wc: False
        show ?thesis
        proof (cases "c \<in> set quotes")
          case True
          with ws esc wc 7(4) show ?thesis
            by (auto simp add: q in_escape in_quotes reachable_def quoting_of_def)
        next
          case False
          with ws esc wc 7(5) show ?thesis
            by (simp add: q in_escape in_quotes reachable_def quoting_of_def)
        qed
      qed
    qed
  qed
next
  case (8 c cs q tok quoted esc)
  from 8(4) have q: "q = CHR 0x27 \<or> q = CHR 0x22" by (simp add: reachable_def in_quotes)
  show ?case
  proof (cases "c = q")
    case True
    with q 8(1) show ?thesis
      by (auto simp add: reachable_def quoting_of_def)
  next
    case ne: False
    show ?thesis
    proof (cases "c \<in> set escape \<and> q \<in> set escapedquotes")
      case True
      with ne 8(2) show ?thesis
        by (simp add: in_escape in_escapedquotes reachable_def quoting_of_def)
    next
      case False
      with ne q 8(3) 8(4) show ?thesis
        by (auto simp add: in_escape in_escapedquotes reachable_def quoting_of_def)
    qed
  qed
next
  case (9 c cs e tok quoted esc)
  from 9(2) consider "esc = In_space" | "esc = In_word" | "esc = In_quote (CHR 0x22)"
    by (cases esc) (auto simp: reachable_def)
  then show ?case
  proof cases
    case 1
    with 9(1) show ?thesis by (simp add: reachable_def quoting_of_def)
  next
    case 2
    with 9(1) show ?thesis by (simp add: reachable_def quoting_of_def)
  next
    case 3
    with 9(1) show ?thesis by (simp add: reachable_def quoting_of_def in_quotes)
  qed
next
  case (10 c cs tok quoted esc)
  have q: "quoting_of In_word esc = Unquoted" by (simp add: quoting_of_def)
  show ?case
  proof (cases "c \<in> set whitespace")
    case True
    with whitespace_plain [OF True] 10(1) show ?thesis
      by (simp add: q agrees_return reachable_def quoting_of_def)
  next
    case ws: False
    show ?thesis
    proof (cases "c \<in> set quotes")
      case True
      with ws 10(2) show ?thesis
        by (auto simp add: q in_quotes reachable_def quoting_of_def)
    next
      case nq: False
      show ?thesis
      proof (cases "c \<in> set escape")
        case True
        with ws nq 10(3) show ?thesis
          by (simp add: q in_escape reachable_def quoting_of_def)
      next
        case False
        with ws nq 10(4) show ?thesis
          by (simp add: q in_escape in_quotes reachable_def quoting_of_def)
      qed
    qed
  qed
qed (simp_all add: reachable_def quoting_of_def parse_error_def agrees_def split: lex_state.splits)

lemma lex_tokens_quoting:
  "state lx = In_space \<or> state lx = Past_eof \<and> instream lx = [] \<Longrightarrow>
   (case lex_tokens lx of
      Inl e \<Rightarrow> foldl quoting_step Unquoted (instream lx) \<noteq> Unquoted
               \<and> e = parse_error (foldl quoting_step Unquoted (instream lx))
    | Inr ts \<Rightarrow> foldl quoting_step Unquoted (instream lx) = Unquoted)"
proof (induction lx rule: lex_tokens.induct)
  case (1 lx)
  show ?case
  proof (cases "state lx = In_space")
    case False
    with 1(2) have "state lx = Past_eof" "instream lx = []" by auto
    then show ?thesis
      by (subst lex_tokens.simps) (simp add: read_token_def)
  next
    case True
    have "reachable In_space In_space" by (simp add: reachable_def)
    from loop_quoting [OF this, of "instream lx" "token lx" False] True
    have ag: "agrees (foldl quoting_step Unquoted (instream lx))
                (read_token_loop (instream lx) (state lx) (token lx) False In_space)"
      by (simp add: quoting_of_def)
    show ?thesis
    proof (cases "read_token_loop (instream lx) (state lx) (token lx) False In_space")
      case (Inl e)
      with ag show ?thesis
        by (subst lex_tokens.simps) (simp add: read_token_def agrees_def)
    next
      case (Inr res)
      obtain rest st' tok' quoted' where res: "res = (rest, st', tok', quoted')"
        by (cases res) auto
      from ag Inr res
      have shape: "st' = In_space \<and> (tok' \<noteq> [] \<or> quoted') \<or> st' = Past_eof \<and> rest = []"
        and same: "foldl quoting_step Unquoted (instream lx) = foldl quoting_step Unquoted rest"
        by (simp_all add: agrees_def)
      show ?thesis
      proof (cases "\<not> quoted' \<and> tok' = []")
        case True
        with shape have "rest = []" by auto
        with True Inr res same show ?thesis
          by (subst lex_tokens.simps) (simp add: read_token_def)
      next
        case False
        let ?lx' = "\<lparr>instream = rest, state = st', token = []\<rparr>"
        from False Inr res have rt: "read_token lx = Inr (Some tok', ?lx')"
          by (simp add: read_token_def)
        from shape have pre: "state ?lx' = In_space \<or> state ?lx' = Past_eof \<and> instream ?lx' = []"
          by auto
        have unfold: "lex_tokens lx =
            (case lex_tokens ?lx' of Inl e \<Rightarrow> Inl e | Inr ts \<Rightarrow> Inr (tok' # ts))"
          by (subst lex_tokens.simps) (simp add: rt)
        from 1(1) [OF rt refl refl pre] same show ?thesis
          by (simp add: unfold split: sum.splits)
      qed
    qed
  qed
qed

lemma wellformed_flags_split: "\<not> malformed flags \<Longrightarrow> \<exists>ts. shlex_split flags = Inr ts"
  using lex_tokens_quoting [of "\<lparr>instream = flags, state = In_space, token = []\<rparr>"]
  by (cases "shlex_split flags") (simp_all add: shlex_split_def malformed_def)

lemma blank_loop:
  "set ws \<subseteq> set whitespace \<Longrightarrow>
   read_token_loop ws In_space [] False esc = Inr ([], Past_eof, [], False)"
  by (induction ws) auto

lemma shlex_split_blank: "set ws \<subseteq> set whitespace \<Longrightarrow> shlex_split ws = Inr []"
  unfolding shlex_split_def
  by (subst lex_tokens.simps) (simp add: read_token_def blank_loop)

lemma shlex_split_malformed:
  "malformed flags \<Longrightarrow>
   shlex_split flags = Inl (parse_error (foldl quoting_step Unquoted flags))"
  using lex_tokens_quoting [of "\<lparr>instream = flags, state = In_space, token = []\<rparr>"]
  by (simp add: shlex_split_def malformed_def split: sum.splits)




















section \<open>The default answers of \<^verbatim>\<open>BasicLinkerIsCompilerMixin\<close>\<close>

text \<open>
  C1, as the code has it. \<^verbatim>\<open>get_link_whole_for\<close>, \<^verbatim>\<open>get_allow_undefined_args\<close>,
  \<^verbatim>\<open>get_pie_link_args\<close> and \<^verbatim>\<open>get_coverage_link_args\<close> raise an
  \<^verbatim>\<open>EnvironmentException\<close> whose message contains \<^verbatim>\<open>self.id\<close> and names the
  feature, for every argument. \<^verbatim>\<open>bitcode_args\<close> and \<^verbatim>\<open>get_soname_args\<close> raise a
  \<^verbatim>\<open>MesonException\<close> with one fixed message: it names the feature and is the same for
  every \<^verbatim>\<open>self.id\<close> and every argument.
\<close>

theorem hard_failure_queries_raise:
  "get_link_whole_for self args =
       Inl (EnvironmentException (''Linker '' @ id_str self @ '' does not support link_whole''))
   \<and> unsupported (get_link_whole_for self args) [id_str self, ''link_whole'']
   \<and> get_allow_undefined_args self =
       Inl (EnvironmentException (''Linker '' @ id_str self @ '' does not support allow undefined''))
   \<and> unsupported (get_allow_undefined_args self) [id_str self, ''allow undefined'']
   \<and> get_pie_link_args self =
       Inl (EnvironmentException
              (''Linker '' @ id_str self @ '' does not support position-independent executable''))
   \<and> unsupported (get_pie_link_args self) [id_str self, ''position-independent executable'']
   \<and> get_coverage_link_args self =
       Inl (EnvironmentException
              (''Linker '' @ id_str self @ '' doesn't implement coverage data generation.''))
   \<and> unsupported (get_coverage_link_args self) [id_str self, ''coverage data generation'']
   \<and> bitcode_args self = Inl (MesonException ''This linker doesn't support bitcode bundles'')
   \<and> unsupported (bitcode_args self) [''bitcode bundles'']
   \<and> get_soname_args self for_machine prefix_str shlib_name suffix_str soversion
         darwin_versions is_shared_module =
       Inl (MesonException ''This linker doesn't support soname args'')
   \<and> unsupported
         (get_soname_args self for_machine prefix_str shlib_name suffix_str soversion
            darwin_versions is_shared_module)
         [''soname args'']"
proof -
  have whole: "unsupported (get_link_whole_for self args) [id_str self, ''link_whole'']"
    unfolding get_link_whole_for_def
    by (rule format_unsupported) (simp add: sublist_Cons_right)
  have undefined: "unsupported (get_allow_undefined_args self) [id_str self, ''allow undefined'']"
    unfolding get_allow_undefined_args_def
    by (rule format_unsupported) (simp add: sublist_Cons_right)
  have pie:
    "unsupported (get_pie_link_args self) [id_str self, ''position-independent executable'']"
    unfolding get_pie_link_args_def
    by (rule format_unsupported) (simp add: sublist_Cons_right)
  have coverage:
    "unsupported (get_coverage_link_args self) [id_str self, ''coverage data generation'']"
    unfolding get_coverage_link_args_def
    by (rule format_unsupported) (simp add: sublist_Cons_right)
  have bitcode:
    "bitcode_args self = Inl (MesonException ''This linker doesn't support bitcode bundles'')
     \<and> unsupported (bitcode_args self) [''bitcode bundles'']"
    by (simp add: bitcode_args_def unsupported_def sublist_Cons_right)
  have soname:
    "get_soname_args self for_machine prefix_str shlib_name suffix_str soversion
         darwin_versions is_shared_module =
       Inl (MesonException ''This linker doesn't support soname args'')
     \<and> unsupported
         (get_soname_args self for_machine prefix_str shlib_name suffix_str soversion
            darwin_versions is_shared_module)
         [''soname args'']"
    by (simp add: get_soname_args_def unsupported_def sublist_Cons_right)
  have whole_message:
    "get_link_whole_for self args =
       Inl (EnvironmentException (''Linker '' @ id_str self @ '' does not support link_whole''))"
    by (simp only: get_link_whole_for_def)
  have undefined_message:
    "get_allow_undefined_args self =
       Inl (EnvironmentException (''Linker '' @ id_str self @ '' does not support allow undefined''))"
    by (simp only: get_allow_undefined_args_def)
  have pie_message:
    "get_pie_link_args self =
       Inl (EnvironmentException
              (''Linker '' @ id_str self @ '' does not support position-independent executable''))"
    by (simp only: get_pie_link_args_def)
  have coverage_message:
    "get_coverage_link_args self =
       Inl (EnvironmentException
              (''Linker '' @ id_str self @ '' doesn't implement coverage data generation.''))"
    by (simp only: get_coverage_link_args_def)
  from whole_message whole undefined_message undefined pie_message pie
    coverage_message coverage bitcode soname
  show ?thesis
    by blast
qed

text \<open>
  C1 as the specification states it asks for \<^verbatim>\<open>self.id\<close> in the message of each of the
  six. For a compiler whose id is \<^verbatim>\<open>dmd\<close>, the message of \<^verbatim>\<open>bitcode_args\<close> does not
  contain it.
\<close>

theorem bitcode_args_omits_id:
  "\<not> unsupported (bitcode_args \<lparr>exelist = 0, id_str = ''dmd''\<rparr>) [''dmd'', ''bitcode bundles'']"
  by (simp add: bitcode_args_def unsupported_def sublist_Cons_right)

text \<open>
  C2: each of the eleven methods with an inert default returns the empty list, and does
  not raise, for every object and every argument.
\<close>

theorem inert_defaults_empty:
  "sanitizer_link_args self val = Inr []
   \<and> get_lto_link_args self = Inr []
   \<and> get_linker_output_args self output = Inr []
   \<and> get_linker_always_args self = Inr []
   \<and> get_option_link_args self options = Inr []
   \<and> get_link_debugfile_args self targetfile = Inr []
   \<and> get_std_shared_lib_link_args self = Inr []
   \<and> get_std_shared_module_args self options' = Inr []
   \<and> get_undefined_link_args self = Inr []
   \<and> no_undefined_link_args self = Inr []
   \<and> build_rpath_args self env build_dir from_dir rpath_paths build_rpath install_rpath = Inr []"
  by (simp add: sanitizer_link_args_def get_lto_link_args_def get_linker_output_args_def
      get_linker_always_args_def get_option_link_args_def get_link_debugfile_args_def
      get_std_shared_lib_link_args_def get_std_shared_module_args_def
      get_std_shared_module_args_body_def get_undefined_link_args_def
      no_undefined_link_args_def build_rpath_args_def)

text \<open>
  C4: \<^verbatim>\<open>can_linker_accept_rsp\<close> returns true exactly when the host platform passes
  \<^verbatim>\<open>mesonlib.is_windows\<close>; it does not raise, and the answer is the same for every
  object, whatever its id.
\<close>

theorem can_linker_accept_rsp_iff_windows:
  "(can_linker_accept_rsp is_windows host self = Inr True) = is_windows host
   \<and> (can_linker_accept_rsp is_windows host self = Inr False) = (\<not> is_windows host)
   \<and> can_linker_accept_rsp is_windows host self = can_linker_accept_rsp is_windows host self'"
  by (simp add: can_linker_accept_rsp_def)

text \<open>
  C5: \<^verbatim>\<open>has_multi_link_args\<close> returns the pair \<^verbatim>\<open>(False, False)\<close>, and does not
  raise, for every argument list and every environment.
\<close>

theorem has_multi_link_args_false:
  "has_multi_link_args self args env = Inr (False, False)"
  by (simp add: has_multi_link_args_def)

text \<open>
  C8: when \<^verbatim>\<open>self.exelist\<close> refers to a list object, \<^verbatim>\<open>get_linker_exelist\<close> returns
  a reference to another list object with the same elements; \<^verbatim>\<open>self.exelist\<close> still
  holds its elements after the call, and any in-place change of the returned list changes
  the returned list and leaves \<^verbatim>\<open>self.exelist\<close> as it was.
\<close>

theorem get_linker_exelist_fresh_copy:
  "exelist self < length h \<Longrightarrow> get_linker_exelist self h = (r, h') \<Longrightarrow>
   (\<exists>a. r = Inr a \<and> a \<noteq> exelist self \<and> a < length h'
      \<and> h' ! a = h ! exelist self
      \<and> h' ! exelist self = h ! exelist self
      \<and> (\<forall>f. list_mutate h' a f ! a = f (h ! exelist self)
            \<and> list_mutate h' a f ! exelist self = h ! exelist self))"
  by (auto simp: get_linker_exelist_def list_copy_def list_mutate_def nth_append)

theorem get_linker_exelist_fresh_copy_witness:
  "exelist \<lparr>exelist = 0, id_str = ''dmd''\<rparr> < length [[''dmd'', ''-v'']]
   \<and> get_linker_exelist \<lparr>exelist = 0, id_str = ''dmd''\<rparr> [[''dmd'', ''-v'']]
       = (Inr 1, [[''dmd'', ''-v''], [''dmd'', ''-v'']])
   \<and> list_mutate [[''dmd'', ''-v''], [''dmd'', ''-v'']] 1 (\<lambda>xs. xs @ [''-g'']) ! 1
       = [''dmd'', ''-v'', ''-g'']
   \<and> list_mutate [[''dmd'', ''-v''], [''dmd'', ''-v'']] 1 (\<lambda>xs. xs @ [''-g'']) ! 0
       = [''dmd'', ''-v'']"
  using get_linker_exelist_fresh_copy
    [of "\<lparr>exelist = 0, id_str = ''dmd''\<rparr>" "[[''dmd'', ''-v'']]" "Inr 1"
        "[[''dmd'', ''-v''], [''dmd'', ''-v'']]"]
  by (simp add: get_linker_exelist_def list_copy_def list_mutate_def)

text \<open>
  C9: a call of any method, repeated with the same arguments in the world that the first
  call left, has the same outcome (the same exception, the same value, a list by its
  elements). The first call leaves the process environment and the host platform as they
  were and changes no list object that existed before it, the one of \<^verbatim>\<open>self.exelist\<close>
  among them; the object itself has no attribute that a method assigns.
\<close>

theorem queries_idempotent:
  "exelist self < length (heap w) \<Longrightarrow>
   call isw self q w = (r1, w1) \<Longrightarrow> call isw self q w1 = (r2, w2) \<Longrightarrow>
   r2 = r1 \<and> os_environ w1 = os_environ w \<and> host_platform w1 = host_platform w
   \<and> prefix (heap w) (heap w1)"
  by (cases q) (auto simp: get_linker_exelist_def list_copy_def nth_append)

theorem queries_idempotent_witness:
  "exelist \<lparr>exelist = 0, id_str = ''dmd''\<rparr>
     < length (heap \<lparr>os_environ = Map.empty, heap = [[''dmd'']], host_platform = True\<rparr>)
   \<and> call (\<lambda>b. b) \<lparr>exelist = 0, id_str = ''dmd''\<rparr> Call_get_linker_exelist
       \<lparr>os_environ = Map.empty, heap = [[''dmd'']], host_platform = True\<rparr>
     = (Inr (Str_list [''dmd'']),
        \<lparr>os_environ = Map.empty, heap = [[''dmd''], [''dmd'']], host_platform = True\<rparr>)
   \<and> call (\<lambda>b. b) \<lparr>exelist = 0, id_str = ''dmd''\<rparr> Call_get_linker_exelist
       \<lparr>os_environ = Map.empty, heap = [[''dmd''], [''dmd'']], host_platform = True\<rparr>
     = (Inr (Str_list [''dmd'']),
        \<lparr>os_environ = Map.empty, heap = [[''dmd''], [''dmd''], [''dmd'']], host_platform = True\<rparr>)
   \<and> prefix [[''dmd'']] [[''dmd''], [''dmd'']]"
  using queries_idempotent
    [of "\<lparr>exelist = 0, id_str = ''dmd''\<rparr>"
        "\<lparr>os_environ = Map.empty, heap = [[''dmd'']], host_platform = True\<rparr>"
        "\<lambda>b. b" Call_get_linker_exelist "Inr (Str_list [''dmd''])"
        "\<lparr>os_environ = Map.empty, heap = [[''dmd''], [''dmd'']], host_platform = True\<rparr>"
        "Inr (Str_list [''dmd''])"
        "\<lparr>os_environ = Map.empty, heap = [[''dmd''], [''dmd''], [''dmd'']], host_platform = True\<rparr>"]
  by (simp add: get_linker_exelist_def list_copy_def)

text \<open>
  C10: on the class as it stands \<^verbatim>\<open>get_std_shared_module_args\<close> returns what
  \<^verbatim>\<open>get_std_shared_lib_link_args\<close> returns, for every option dictionary; and its body,
  run on an object whose \<^verbatim>\<open>get_std_shared_lib_link_args\<close> is another method, returns
  what that method returns.
\<close>

theorem get_std_shared_module_args_follows_lib:
  "get_std_shared_module_args self options = get_std_shared_lib_link_args self
   \<and> get_std_shared_module_args self options = get_std_shared_module_args self options'
   \<and> get_std_shared_module_args_body override self options = override self"
  by (simp add: get_std_shared_module_args_def get_std_shared_module_args_body_def)

section \<open>The flags of \<^verbatim>\<open>LinkerEnvVarsMixin\<close>\<close>

text \<open>
  C3, as the code has it: when \<^verbatim>\<open>LDFLAGS\<close> holds a string that is malformed for the
  quoting of the POSIX shell, \<^verbatim>\<open>get_linker_args_from_envvars\<close> returns no list. It
  lets the \<^verbatim>\<open>ValueError\<close> of \<^verbatim>\<open>shlex.split\<close> through as it is,
  \<^verbatim>\<open>No closing quotation\<close> when a quote is not closed and
  \<^verbatim>\<open>No escaped character\<close> when nothing follows a backslash. This exception is built
  into Python: it is none that \<^verbatim>\<open>mesonlib\<close> declares, and so neither of the two that
  report an unsupported feature.
\<close>

theorem malformed_flags_raise:
  "environ ''LDFLAGS'' = Some flags \<Longrightarrow> malformed flags \<Longrightarrow>
   get_linker_args_from_envvars self environ =
     Inl (ValueError
            (if foldl quoting_step Unquoted flags = Single_quoted
                \<or> foldl quoting_step Unquoted flags = Double_quoted
             then ''No closing quotation'' else ''No escaped character''))
   \<and> \<not> meson_exception (get_linker_args_from_envvars self environ)
   \<and> \<not> unsupported (get_linker_args_from_envvars self environ) parts"
proof -
  assume env: "environ ''LDFLAGS'' = Some flags" and bad: "malformed flags"
  from bad have ne: "flags \<noteq> []" by (auto simp: malformed_def)
  from env ne shlex_split_malformed [OF bad] show ?thesis
    by (simp add: get_linker_args_from_envvars_def parse_error_def unsupported_def
        meson_exception_def)
qed

theorem malformed_flags_raise_witness:
  "[''LDFLAGS'' \<mapsto> ''-L/opt/lib \"-Wl,-rpath''] ''LDFLAGS'' = Some ''-L/opt/lib \"-Wl,-rpath''
   \<and> malformed ''-L/opt/lib \"-Wl,-rpath''
   \<and> get_linker_args_from_envvars () [''LDFLAGS'' \<mapsto> ''-L/opt/lib \"-Wl,-rpath'']
       = Inl (ValueError ''No closing quotation'')"
  using malformed_flags_raise
    [of "[''LDFLAGS'' \<mapsto> ''-L/opt/lib \"-Wl,-rpath'']" "''-L/opt/lib \"-Wl,-rpath''" "()" "[]"]
  by (simp add: malformed_def)

text \<open>
  C3 as the specification states it asks for an error of the configuration, of a type of
  its own, in place of an exception that nothing in the program declares. For
  \<^verbatim>\<open>LDFLAGS\<close> set to \<^verbatim>\<open>"-Wl,-rpath\<close>, with the quote left open, the method raises
  the \<^verbatim>\<open>ValueError\<close> of Python, which is no exception of \<^verbatim>\<open>mesonlib\<close>.
\<close>

theorem unclosed_quote_raises_builtin:
  "get_linker_args_from_envvars () [''LDFLAGS'' \<mapsto> ''\"-Wl,-rpath'']
     = Inl (ValueError ''No closing quotation'')
   \<and> \<not> meson_exception (get_linker_args_from_envvars () [''LDFLAGS'' \<mapsto> ''\"-Wl,-rpath''])"
proof -
  have bad: "malformed ''\"-Wl,-rpath''" by (simp add: malformed_def)
  from shlex_split_malformed [OF bad] show ?thesis
    by (simp add: get_linker_args_from_envvars_def parse_error_def meson_exception_def)
qed



text \<open>
  C7: when \<^verbatim>\<open>LDFLAGS\<close> is unset, or set to a string of nothing but the whitespace of
  the lexer (space, tab, carriage return, newline), the empty string among them, the
  method returns the empty list and does not raise.
\<close>

theorem blank_flags_empty:
  "(case environ ''LDFLAGS'' of None \<Rightarrow> True | Some flags \<Rightarrow> set flags \<subseteq> set whitespace)
   \<Longrightarrow> get_linker_args_from_envvars self environ = Inr []"
  by (simp add: get_linker_args_from_envvars_def shlex_split_blank split: option.splits)

theorem blank_flags_empty_witness:
  "get_linker_args_from_envvars () Map.empty = Inr []
   \<and> get_linker_args_from_envvars () [''LDFLAGS'' \<mapsto> []] = Inr []
   \<and> set [CHR '' '', CHR 0x09, CHR '' '', CHR 0x0A] \<subseteq> set whitespace
   \<and> get_linker_args_from_envvars () [''LDFLAGS'' \<mapsto> [CHR '' '', CHR 0x09, CHR '' '', CHR 0x0A]]
       = Inr []"
  using blank_flags_empty [of Map.empty "()"]
    blank_flags_empty [of "[''LDFLAGS'' \<mapsto> []]" "()"]
    blank_flags_empty [of "[''LDFLAGS'' \<mapsto> [CHR '' '', CHR 0x09, CHR '' '', CHR 0x0A]]" "()"]
  by (simp add: whitespace_def)

end
